theory Spec2Isabelle
  imports Complex_Main "HOL-Library.Sublist"
begin

section \<open>Python strings\<close>

text \<open>
  A string of \<^verbatim>\<open>opsctl.py\<close> is a list of 8-bit characters here. The literals of the
  source and the texts that are only matched against ASCII keywords or passed on (error
  texts, status codes, domains) are read as their UTF-8 bytes: UTF-8 is prefix-free and an
  ASCII byte never occurs inside a multi-byte sequence, so \<^verbatim>\<open>s.startswith(p)\<close> and
  \<^verbatim>\<open>sub in s\<close> on Python's code points hold exactly when they hold on the bytes. Target
  names, which the source sanitises character by character, are read at code points (see
  the storage keys below).
\<close>

fun startswith :: "string \<Rightarrow> string \<Rightarrow> bool" where
  "startswith s [] = True"
| "startswith [] (p # ps) = False"
| "startswith (c # s) (p # ps) = (c = p \<and> startswith s ps)"

text \<open>\<^verbatim>\<open>sub in s\<close>: \<open>sub\<close> occurs in \<open>s\<close> as a contiguous run.\<close>

fun str_in :: "string \<Rightarrow> string \<Rightarrow> bool" where
  "str_in sub [] = (sub = [])"
| "str_in sub (c # s) = (startswith (c # s) sub \<or> str_in sub s)"

text \<open>
  \<^verbatim>\<open>str.lower()\<close>. On the bytes only the ASCII capitals change. Python also lowers
  non-ASCII capitals, but the only code points beyond ASCII whose lower case contains an
  ASCII letter are U+0130 (to \<open>i\<close> followed by U+0307) and U+212A (to \<open>k\<close>), and no
  keyword of \<^verbatim>\<open>classify_error\<close> contains a \<open>k\<close> or an \<open>i\<close> that is not followed by a
  letter, so the keyword tests below see the same answer.
\<close>

definition lower_char :: "char \<Rightarrow> char" where
  "lower_char c =
     (case map_of (zip ''ABCDEFGHIJKLMNOPQRSTUVWXYZ'' ''abcdefghijklmnopqrstuvwxyz'') c of
        Some d \<Rightarrow> d
      | None \<Rightarrow> c)"

definition py_lower :: "string \<Rightarrow> string" where
  "py_lower s = map lower_char s"

text \<open>\<^verbatim>\<open>str(n)\<close> for an integer, as used by the f-strings.\<close>

definition digit_char :: "nat \<Rightarrow> char" where
  "digit_char d = ''0123456789'' ! d"

fun str_nat :: "nat \<Rightarrow> string" where
  "str_nat n = (if n < 10 then [digit_char n] else str_nat (n div 10) @ [digit_char (n mod 10)])"

declare str_nat.simps [simp del]

definition str_int :: "int \<Rightarrow> string" where
  "str_int i = (if i < 0 then ''-'' @ str_nat (nat (- i)) else str_nat (nat i))"

subsection \<open>Literals\<close>

text \<open>U+2705, the white heavy check mark that opens every healthy status.\<close>

definition check_mark :: string where
  "check_mark = [CHR 0xE2, CHR 0x9C, CHR 0x85]"

text \<open>U+274C, the cross mark that opens every unavailable status.\<close>

definition cross_mark :: string where
  "cross_mark = [CHR 0xE2, CHR 0x9D, CHR 0x8C]"

text \<open>U+26A0 U+FE0F, the warning sign.\<close>

definition warning_sign :: string where
  "warning_sign = [CHR 0xE2, CHR 0x9A, CHR 0xA0, CHR 0xEF, CHR 0xB8, CHR 0x8F]"

text \<open>U+1F6AB, the no-entry sign.\<close>

definition no_entry :: string where
  "no_entry = [CHR 0xF0, CHR 0x9F, CHR 0x9A, CHR 0xAB]"

text \<open>
  The status texts of \<^verbatim>\<open>request_check\<close> and \<^verbatim>\<open>proxy_check_domain\<close>:
  check mark, space, U+6B63 U+5E38 ("normal"), then the code in brackets;
  warning sign, space, U+5F02 U+5E38 ("abnormal"), then the code in brackets;
  warning sign, space, U+4E0D U+7A33 U+5B9A ("unstable"), \<open>(timeout)\<close>;
  cross mark, space, U+4E0D U+53EF U+7528 ("unavailable"), alone or with the reason in
  brackets;
  cross mark, \<open> requests \<close>, U+672A U+5B89 U+88C5 ("not installed");
  warning sign, space, U+672A U+914D U+7F6E U+4EE3 U+7406 ("proxy not configured"), \<open>API\<close>.
\<close>

definition status_healthy :: "int \<Rightarrow> string" where
  "status_healthy code =
     check_mark @ '' '' @ [CHR 0xE6, CHR 0xAD, CHR 0xA3, CHR 0xE5, CHR 0xB8, CHR 0xB8] @
     ''('' @ str_int code @ '')''"

definition status_anomalous :: "int \<Rightarrow> string" where
  "status_anomalous code =
     warning_sign @ '' '' @ [CHR 0xE5, CHR 0xBC, CHR 0x82, CHR 0xE5, CHR 0xB8, CHR 0xB8] @
     ''('' @ str_int code @ '')''"

definition status_unstable :: string where
  "status_unstable =
     warning_sign @ '' '' @
     [CHR 0xE4, CHR 0xB8, CHR 0x8D, CHR 0xE7, CHR 0xA8, CHR 0xB3, CHR 0xE5, CHR 0xAE, CHR 0x9A] @
     ''(timeout)''"

definition status_unavailable_bare :: string where
  "status_unavailable_bare =
     cross_mark @ '' '' @
     [CHR 0xE4, CHR 0xB8, CHR 0x8D, CHR 0xE5, CHR 0x8F, CHR 0xAF, CHR 0xE7, CHR 0x94, CHR 0xA8]"

definition status_unavailable :: "string \<Rightarrow> string" where
  "status_unavailable err = status_unavailable_bare @ ''('' @ err @ '')''"

definition status_no_requests :: string where
  "status_no_requests =
     cross_mark @ '' requests '' @
     [CHR 0xE6, CHR 0x9C, CHR 0xAA, CHR 0xE5, CHR 0xAE, CHR 0x89, CHR 0xE8, CHR 0xA3, CHR 0x85]"

definition status_proxy_not_configured :: string where
  "status_proxy_not_configured =
     warning_sign @ '' '' @
     [CHR 0xE6, CHR 0x9C, CHR 0xAA, CHR 0xE9, CHR 0x85, CHR 0x8D, CHR 0xE7, CHR 0xBD, CHR 0xAE,
      CHR 0xE4, CHR 0xBB, CHR 0xA3, CHR 0xE7, CHR 0x90, CHR 0x86] @ ''API''"

text \<open>
  The six final verdicts of \<^verbatim>\<open>cmd_cn_run\<close>, in the order of the source:
  "reachable (unverified)", "unreachable (unverified)", "reachable with exit-path
  discrepancy", "reachable", "restricted (HTTPS blocked locally)" and "unreachable (needs
  external verification)".
\<close>

definition final_reachable_unverified :: string where
  "final_reachable_unverified =
     check_mark @ '' '' @
     [CHR 0xE5, CHR 0x9B, CHR 0xBD, CHR 0xE5, CHR 0x86, CHR 0x85, CHR 0xE8, CHR 0xAE, CHR 0xBF,
      CHR 0xE9, CHR 0x97, CHR 0xAE, CHR 0xE6, CHR 0xAD, CHR 0xA3, CHR 0xE5, CHR 0xB8, CHR 0xB8,
      CHR 0xEF, CHR 0xBC, CHR 0x88, CHR 0xE6, CHR 0x9C, CHR 0xAA, CHR 0xE5, CHR 0x90, CHR 0xAF,
      CHR 0xE7, CHR 0x94, CHR 0xA8, CHR 0xE4, CHR 0xBB, CHR 0xA3, CHR 0xE7, CHR 0x90, CHR 0x86,
      CHR 0xE9, CHR 0xAA, CHR 0x8C, CHR 0xE8, CHR 0xAF, CHR 0x81, CHR 0xEF, CHR 0xBC, CHR 0x89]"

definition final_unreachable_unverified :: string where
  "final_unreachable_unverified =
     no_entry @ '' '' @
     [CHR 0xE5, CHR 0x9B, CHR 0xBD, CHR 0xE5, CHR 0x86, CHR 0x85, CHR 0xE5, CHR 0xBC, CHR 0x82,
      CHR 0xE5, CHR 0xB8, CHR 0xB8, CHR 0xEF, CHR 0xBC, CHR 0x88, CHR 0xE6, CHR 0x9C, CHR 0xAA,
      CHR 0xE5, CHR 0x90, CHR 0xAF, CHR 0xE7, CHR 0x94, CHR 0xA8, CHR 0xE4, CHR 0xBB, CHR 0xA3,
      CHR 0xE7, CHR 0x90, CHR 0x86, CHR 0xE9, CHR 0xAA, CHR 0x8C, CHR 0xE8, CHR 0xAF, CHR 0x81,
      CHR 0xEF, CHR 0xBC, CHR 0x89]"

definition final_discrepancy :: string where
  "final_discrepancy =
     warning_sign @ '' '' @
     [CHR 0xE5, CHR 0x9B, CHR 0xBD, CHR 0xE5, CHR 0x86, CHR 0x85, CHR 0xE5, CHR 0x8F, CHR 0xAF,
      CHR 0xE8, CHR 0xAE, CHR 0xBF, CHR 0xE9, CHR 0x97, CHR 0xAE, CHR 0xEF, CHR 0xBC, CHR 0x8C,
      CHR 0xE4, CHR 0xBD, CHR 0x86, CHR 0xE5, CHR 0xAD, CHR 0x98, CHR 0xE5, CHR 0x9C, CHR 0xA8,
      CHR 0xE5, CHR 0x87, CHR 0xBA, CHR 0xE5, CHR 0x8F, CHR 0xA3, CHR 0xE5, CHR 0xB7, CHR 0xAE,
      CHR 0xE5, CHR 0xBC, CHR 0x82]"

definition final_reachable :: string where
  "final_reachable =
     check_mark @ '' '' @
     [CHR 0xE5, CHR 0x9B, CHR 0xBD, CHR 0xE5, CHR 0x86, CHR 0x85, CHR 0xE8, CHR 0xAE, CHR 0xBF,
      CHR 0xE9, CHR 0x97, CHR 0xAE, CHR 0xE6, CHR 0xAD, CHR 0xA3, CHR 0xE5, CHR 0xB8, CHR 0xB8]"

definition final_restricted :: string where
  "final_restricted =
     warning_sign @ '' '' @
     [CHR 0xE5, CHR 0x9B, CHR 0xBD, CHR 0xE5, CHR 0x86, CHR 0x85, CHR 0xE5, CHR 0xBC, CHR 0x82,
      CHR 0xE5, CHR 0xB8, CHR 0xB8, CHR 0xEF, CHR 0xBC, CHR 0x88] @ ''HTTPS '' @
     [CHR 0xE5, CHR 0x8F, CHR 0x97, CHR 0xE9, CHR 0x98, CHR 0xBB, CHR 0xEF, CHR 0xBC, CHR 0x89]"

definition final_unreachable :: string where
  "final_unreachable =
     no_entry @ '' '' @
     [CHR 0xE5, CHR 0x9B, CHR 0xBD, CHR 0xE5, CHR 0x86, CHR 0x85, CHR 0xE6, CHR 0x97, CHR 0xA0,
      CHR 0xE6, CHR 0xB3, CHR 0x95, CHR 0xE8, CHR 0xAE, CHR 0xBF, CHR 0xE9, CHR 0x97, CHR 0xAE,
      CHR 0xEF, CHR 0xBC, CHR 0x88, CHR 0xE9, CHR 0x9C, CHR 0x80, CHR 0xE6, CHR 0xB5, CHR 0xB7,
      CHR 0xE5, CHR 0xA4, CHR 0x96, CHR 0xE9, CHR 0xAA, CHR 0x8C, CHR 0xE8, CHR 0xAF, CHR 0x81,
      CHR 0xEF, CHR 0xBC, CHR 0x89]"

section \<open>cn-check: the reachability classifier\<close>

subsection \<open>Classifying a transport error\<close>

text \<open>\<^verbatim>\<open>classify_error(e)\<close>, on the text \<^verbatim>\<open>str(e)\<close> of the exception.\<close>

definition classify_error :: "string \<Rightarrow> string" where
  "classify_error e =
     (let s = py_lower e in
      if str_in ''timed out'' s \<or> str_in ''timeout'' s then ''timeout''
      else if str_in ''reset'' s then ''reset''
      else if str_in ''ssl'' s \<or> str_in ''eof'' s then ''ssl_error''
      else if str_in ''refused'' s then ''refused''
      else if str_in ''proxy'' s \<and> str_in ''connect'' s then ''proxy_connect''
      else ''other'')"

subsection \<open>The network as the run sees it\<close>

text \<open>
  \<^verbatim>\<open>requests.get\<close> either returns a response, of which only \<^verbatim>\<open>status_code\<close> is read, or
  raises an exception, of which only \<^verbatim>\<open>str(e)\<close> is read.
\<close>

datatype response = Response int | Raised string

text \<open>
  The arguments of one \<^verbatim>\<open>requests.get\<close> call of \<^verbatim>\<open>request_check\<close> (redirects and the
  user agent are the same in every call). A proxy dictionary maps both schemes to one URL,
  which stands for it here.
\<close>

record request =
  url :: string
  timeout :: int
  verify :: bool
  proxies :: "string option"

text \<open>
  The collaborators: \<open>http k r\<close> is what \<^verbatim>\<open>requests.get\<close> answers when \<^verbatim>\<open>request_check\<close>
  calls it with the arguments \<open>r\<close>, \<open>k\<close> such calls having been made before, and
  \<open>fetch k\<close> is what the guarded body of \<^verbatim>\<open>get_proxy\<close> yields, \<open>k\<close> fetches having been
  made before: the proxy URL, or \<open>None\<close> where the source returns \<^verbatim>\<open>None\<close> (an empty
  answer, an unreadable one, any exception). The world records the requests issued so
  far, oldest first, and the number of proxy fetches made.
\<close>

record net =
  http :: "nat \<Rightarrow> request \<Rightarrow> response"
  fetch :: "nat \<Rightarrow> string option"

record world =
  sent :: "request list"
  fetched :: nat

definition requests_get :: "net \<Rightarrow> request \<Rightarrow> world \<Rightarrow> response \<times> world" where
  "requests_get nt r w = (http nt (length (sent w)) r, w\<lparr>sent := sent w @ [r]\<rparr>)"

text \<open>
  The configuration values the classifier reads: whether \<^verbatim>\<open>requests\<close> could be imported,
  \<^verbatim>\<open>(cfg.get("CN_PROXY_API") or "").strip()\<close>, \<^verbatim>\<open>CN_TIMEOUT\<close> and \<^verbatim>\<open>CN_MAX_PROXY_RETRY\<close>.
\<close>

record cn_cfg =
  has_requests :: bool
  proxy_api :: string
  cn_timeout :: int
  max_retry :: int

subsection \<open>One reachability check\<close>

definition request_check ::
  "net \<Rightarrow> bool \<Rightarrow> string \<Rightarrow> int \<Rightarrow> bool \<Rightarrow> string option \<Rightarrow> bool \<Rightarrow> world \<Rightarrow> string \<times> world"
where
  "request_check nt hasreq u tmo vfy prx http_timeout_is_unstable w =
     (if \<not> hasreq then (status_no_requests, w)
      else
        (case requests_get nt \<lparr>url = u, timeout = tmo, verify = vfy, proxies = prx\<rparr> w of
           (Response code, w') \<Rightarrow>
             (if 200 \<le> code \<and> code < 400 then (status_healthy code, w')
              else (status_anomalous code, w'))
         | (Raised e, w') \<Rightarrow>
             (let err = classify_error e in
              if http_timeout_is_unstable \<and> err = ''timeout'' then (status_unstable, w')
              else (status_unavailable err, w'))))"

definition direct_check_domain ::
  "net \<Rightarrow> bool \<Rightarrow> string \<Rightarrow> int \<Rightarrow> world \<Rightarrow> (string \<times> string) \<times> world"
where
  "direct_check_domain nt hasreq domain tmo w =
     (let (https_status, w1) = request_check nt hasreq (''https://'' @ domain) tmo False None False w;
          (http_status, w2) = request_check nt hasreq (''http://'' @ domain) tmo True None True w1
      in ((https_status, http_status), w2))"

subsection \<open>The proxy path\<close>

text \<open>
  \<^verbatim>\<open>get_proxy\<close>: the two guards of the source, then the fetch. Asking the proxy source
  and reading its answer in one of the accepted spellings happen inside \<^const>\<open>fetch\<close>.
\<close>

definition get_proxy :: "net \<Rightarrow> cn_cfg \<Rightarrow> world \<Rightarrow> string option \<times> world" where
  "get_proxy nt cfg w =
     (if \<not> has_requests cfg then (None, w)
      else if proxy_api cfg = [] then (None, w)
      else (fetch nt (fetched w), w\<lparr>fetched := Suc (fetched w)\<rparr>))"

text \<open>
  The \<^verbatim>\<open>for _ in range(max_retry)\<close> loop of \<^verbatim>\<open>proxy_check_domain\<close>, with the number of
  iterations left and the two statuses as they stand.
\<close>

fun proxy_loop ::
  "net \<Rightarrow> cn_cfg \<Rightarrow> string \<Rightarrow> nat \<Rightarrow> string \<times> string \<Rightarrow> world \<Rightarrow> (string \<times> string) \<times> world"
where
  "proxy_loop nt cfg domain 0 st w = (st, w)"
| "proxy_loop nt cfg domain (Suc k) st w =
     (case get_proxy nt cfg w of
        (None, w1) \<Rightarrow> proxy_loop nt cfg domain k st w1
      | (Some proxy, w1) \<Rightarrow>
          (let (proxy_https, w2) =
                 request_check nt (has_requests cfg) (''https://'' @ domain) (cn_timeout cfg)
                   False (Some proxy) False w1;
               (proxy_http, w3) =
                 request_check nt (has_requests cfg) (''http://'' @ domain) (cn_timeout cfg)
                   True (Some proxy) False w2
           in if startswith proxy_https check_mark \<or> startswith proxy_http check_mark
              then ((proxy_https, proxy_http), w3)
              else proxy_loop nt cfg domain k (proxy_https, proxy_http) w3))"

definition proxy_check_domain ::
  "net \<Rightarrow> cn_cfg \<Rightarrow> string \<Rightarrow> world \<Rightarrow> (string \<times> string) \<times> world"
where
  "proxy_check_domain nt cfg domain w =
     (if proxy_api cfg = [] then ((status_proxy_not_configured, status_proxy_not_configured), w)
      else proxy_loop nt cfg domain (nat (max_retry cfg))
             (status_unavailable_bare, status_unavailable_bare) w)"

subsection \<open>The final verdict\<close>

text \<open>One entry of the result list of \<^verbatim>\<open>cmd_cn_run\<close>, with the keys of the source.\<close>

record cn_result =
  domain :: string
  direct_https :: string
  direct_http :: string
  proxy_https :: string
  proxy_http :: string
  final_cn :: string

text \<open>The body of the loop over the domains.\<close>

definition cn_check_domain :: "net \<Rightarrow> cn_cfg \<Rightarrow> string \<Rightarrow> world \<Rightarrow> cn_result \<times> world" where
  "cn_check_domain nt cfg dn w =
     (let proxy_enabled = (proxy_api cfg \<noteq> []);
          ((d_https, d_http), w1) = direct_check_domain nt (has_requests cfg) dn (cn_timeout cfg) w;
          ((p_https, p_http), w2) = proxy_check_domain nt cfg dn w1;
          d_https_ok = startswith d_https check_mark;
          p_https_ok = startswith p_https check_mark;
          p_http_ok = startswith p_http check_mark;
          final =
            (if \<not> proxy_enabled then
               (if d_https_ok then final_reachable_unverified else final_unreachable_unverified)
             else if d_https_ok then
               (if startswith p_https cross_mark then final_discrepancy else final_reachable)
             else
               (if p_https_ok \<or> p_http_ok then final_restricted else final_unreachable))
      in (\<lparr>domain = dn, direct_https = d_https, direct_http = d_http,
            proxy_https = p_https, proxy_http = p_http, final_cn = final\<rparr>, w2))"

fun cn_check_all :: "net \<Rightarrow> cn_cfg \<Rightarrow> string list \<Rightarrow> world \<Rightarrow> cn_result list \<times> world" where
  "cn_check_all nt cfg [] w = ([], w)"
| "cn_check_all nt cfg (d # ds) w =
     (let (r, w1) = cn_check_domain nt cfg d w;
          (rs, w2) = cn_check_all nt cfg ds w1
      in (r # rs, w2))"

text \<open>
  \<^verbatim>\<open>cmd_cn_run\<close> up to the result list: the exit code, the records and the world. The
  domain list is \<open>None\<close> when the file is not there. Writing the JSON artifact, the log and
  the optional push come after the list is complete and do not change it.
\<close>

definition cmd_cn_run ::
  "net \<Rightarrow> cn_cfg \<Rightarrow> string list option \<Rightarrow> world \<Rightarrow> int \<times> cn_result list \<times> world"
where
  "cmd_cn_run nt cfg domains_file w =
     (if \<not> has_requests cfg then (3, [], w)
      else
        (case domains_file of
           None \<Rightarrow> (2, [], w)
         | Some domains \<Rightarrow>
             (if domains = [] then (2, [], w)
              else (let (results, w') = cn_check_all nt cfg domains w in (0, results, w')))))"

section \<open>origin-monitor: the failure-streak tracker\<close>

subsection \<open>Floats and their three-decimal format\<close>

text \<open>
  A Python \<^verbatim>\<open>float\<close>: a finite double is a rational number and comparing two of them is
  exact, so a finite value is kept as that rational; the infinities and NaN are values of
  their own. The sign of a zero is not kept (\<^verbatim>\<open>-0.0\<close> would print as \<^verbatim>\<open>-0.000\<close>).
\<close>

datatype pyfloat = Fin rat | PInf | NInf | NaN

text \<open>\<^verbatim>\<open>a > b\<close> on floats: false as soon as one side is NaN.\<close>

fun float_gt :: "pyfloat \<Rightarrow> pyfloat \<Rightarrow> bool" where
  "float_gt NaN b = False"
| "float_gt a NaN = False"
| "float_gt (Fin a) (Fin b) = (b < a)"
| "float_gt PInf PInf = False"
| "float_gt PInf b = True"
| "float_gt NInf b = False"
| "float_gt (Fin a) NInf = True"
| "float_gt (Fin a) PInf = False"

text \<open>Rounding to the nearest integer, an exact tie going to the even neighbour.\<close>

definition round_half_even :: "rat \<Rightarrow> int" where
  "round_half_even x =
     (let (a, b) = quotient_of x; q = a div b; r = a mod b
      in if 2 * r < b then q else if b < 2 * r then q + 1 else if even q then q else q + 1)"

text \<open>The number of thousandths that \<^verbatim>\<open>:.3f\<close> prints for a finite value, sign apart.\<close>

definition millis :: "rat \<Rightarrow> nat" where
  "millis x = nat (round_half_even (\<bar>x\<bar> * 1000))"

text \<open>\<^verbatim>\<open>f"{x:.3f}"\<close>.\<close>

fun fmt3 :: "pyfloat \<Rightarrow> string" where
  "fmt3 (Fin x) =
     (if x < 0 then ''-'' else '''') @ str_nat (millis x div 1000) @ ''.'' @
     [digit_char (millis x div 100 mod 10), digit_char (millis x div 10 mod 10),
      digit_char (millis x mod 10)]"
| "fmt3 PInf = ''inf''"
| "fmt3 NInf = ''-inf''"
| "fmt3 NaN = ''nan''"

subsection \<open>Storage keys and the state files\<close>

text \<open>
  In this part a character of a name is read as a code point, and \<^typ>\<open>char\<close> covers the
  code points up to U+00FF. \<^verbatim>\<open>str.isalnum\<close> on that range: the ASCII digits and letters,
  the two ordinal indicators, the micro sign, the superscript digits, the three vulgar
  fractions and the accented letters (all of U+00C0 to U+00FF but the multiplication and
  the division sign).
\<close>

definition isalnum :: "char \<Rightarrow> bool" where
  "isalnum ch =
     (let n = (of_char ch :: nat)
      in (48 \<le> n \<and> n \<le> 57) \<or> (65 \<le> n \<and> n \<le> 90) \<or> (97 \<le> n \<and> n \<le> 122)
         \<or> n \<in> {0xAA, 0xB2, 0xB3, 0xB5, 0xB9, 0xBA, 0xBC, 0xBD, 0xBE}
         \<or> (0xC0 \<le> n \<and> n \<le> 0xD6) \<or> (0xD8 \<le> n \<and> n \<le> 0xF6) \<or> 0xF8 \<le> n)"

definition safe_name :: "string \<Rightarrow> string" where
  "safe_name nm = map (\<lambda>ch. if isalnum ch \<or> ch \<in> set ''.-_'' then ch else CHR ''_'') nm"

text \<open>\<^verbatim>\<open>os.path.join\<close> of a directory and one component.\<close>

definition path_join :: "string \<Rightarrow> string \<Rightarrow> string" where
  "path_join a b =
     (if startswith b ''/'' then b
      else if a = [] \<or> last a = CHR ''/'' then a @ b
      else a @ ''/'' @ b)"

text \<open>
  What \<^verbatim>\<open>read_int\<close> finds in a file: text that \<^verbatim>\<open>int\<close> reads as a number, which is what
  \<^verbatim>\<open>write_int\<close> leaves (\<^verbatim>\<open>int(str(v)) == v\<close>), or anything else (nothing but blanks,
  text that \<^verbatim>\<open>int\<close> rejects), where \<^verbatim>\<open>read_int\<close> falls back to its default as it does
  for a missing file.
\<close>

datatype content = Number int | Unreadable

type_synonym fs = "string \<rightharpoonup> content"

definition read_int :: "fs \<Rightarrow> string \<Rightarrow> int \<Rightarrow> int" where
  "read_int files p dflt = (case files p of Some (Number v) \<Rightarrow> v | _ \<Rightarrow> dflt)"

definition write_int :: "fs \<Rightarrow> string \<Rightarrow> int \<Rightarrow> fs" where
  "write_int files p val = files(p \<mapsto> Number val)"

definition path_exists :: "fs \<Rightarrow> string \<Rightarrow> bool" where
  "path_exists files p = (files p \<noteq> None)"

text \<open>\<^verbatim>\<open>os.remove\<close> with \<^verbatim>\<open>FileNotFoundError\<close> swallowed, as both call sites do.\<close>

definition remove_file :: "fs \<Rightarrow> string \<Rightarrow> fs" where
  "remove_file files p = files(p := None)"

subsection \<open>Targets, probe outcomes and the texts written\<close>

record OriginTarget =
  name :: string
  domain :: string
  origin_ip :: string
  port :: int
  path :: string
  slow_time :: pyfloat
  scheme :: string

text \<open>
  What one pass of the loop gets from outside: the triple that \<^verbatim>\<open>run_curl_probe\<close>
  returns, the epoch second read for the throttle, the pair that \<^verbatim>\<open>send_alert_origin\<close>
  answers if it is called, and the text of \<^verbatim>\<open>now_str()\<close> at each of its three uses (in
  the alert message, in the alert's log line, in the closing log line).
\<close>

record cycle_env =
  probe :: "string \<times> pyfloat \<times> string"
  now_ts :: int
  alert_reply :: "bool \<times> string"
  now_str_msg :: string
  now_str_alert :: string
  now_str_log :: string

text \<open>
  The state a pass works on: the files of the state directory, the lines appended to the
  log file and the messages handed to the alert dispatcher, oldest first. The log file is
  taken to be none of the state files.
\<close>

record origin_state =
  files :: fs
  log_lines :: "string list"
  alerts :: "string list"

text \<open>\<^verbatim>\<open>append_line\<close>: trailing newlines of the line are dropped before it is written.\<close>

definition append_line :: "string list \<Rightarrow> string \<Rightarrow> string list" where
  "append_line lg line = lg @ [rev (dropWhile (\<lambda>c. c = CHR 0x0A) (rev line))]"

text \<open>\<^verbatim>\<open>str(ok)\<close> for a Boolean.\<close>

definition str_bool :: "bool \<Rightarrow> string" where
  "str_bool b = (if b then ''True'' else ''False'')"

text \<open>
  The slow-response reason: U+54CD U+5E94 U+6162 ("response slow"), a space, the elapsed
  time with three decimals, \<open>s\<close>.
\<close>

definition slow_reason :: "pyfloat \<Rightarrow> string" where
  "slow_reason time_total =
     [CHR 0xE5, CHR 0x93, CHR 0x8D, CHR 0xE5, CHR 0xBA, CHR 0x94, CHR 0xE6, CHR 0x85, CHR 0xA2] @
     '' '' @ fmt3 time_total @ ''s''"

text \<open>
  The alert message: the siren U+1F6A8 and the bracketed headline, then name, domain, IP,
  reason, response time, streak length and time, each behind its label.
\<close>

definition alert_message :: "OriginTarget \<Rightarrow> string \<Rightarrow> pyfloat \<Rightarrow> int \<Rightarrow> string \<Rightarrow> string" where
  "alert_message t fail_reason time_total count now =
     [CHR 0xF0, CHR 0x9F, CHR 0x9A, CHR 0xA8, CHR 0xE3, CHR 0x80, CHR 0x90, CHR 0xE7, CHR 0x9B,
      CHR 0xB4, CHR 0xE8, CHR 0xBF, CHR 0x9E, CHR 0xE6, CHR 0xBA, CHR 0x90, CHR 0xE7, CHR 0xAB,
      CHR 0x99, CHR 0xE7, CHR 0x96, CHR 0x91, CHR 0xE4, CHR 0xBC, CHR 0xBC, CHR 0xE8, CHR 0xA2,
      CHR 0xAB, CHR 0xE6, CHR 0x89, CHR 0x93, CHR 0xE3, CHR 0x80, CHR 0x91] @ '' | '' @
     [CHR 0xE5, CHR 0x90, CHR 0x8D, CHR 0xE7, CHR 0xA7, CHR 0xB0] @ '': '' @ name t @
     '' | '' @ [CHR 0xE5, CHR 0x9F, CHR 0x9F, CHR 0xE5, CHR 0x90, CHR 0x8D] @ '': '' @ domain t @
     '' | IP: '' @ origin_ip t @
     '' | '' @ [CHR 0xE5, CHR 0x8E, CHR 0x9F, CHR 0xE5, CHR 0x9B, CHR 0xA0] @ '': '' @ fail_reason @
     '' | '' @
     [CHR 0xE5, CHR 0x93, CHR 0x8D, CHR 0xE5, CHR 0xBA, CHR 0x94, CHR 0xE6, CHR 0x97, CHR 0xB6,
      CHR 0xE9, CHR 0x97, CHR 0xB4] @ '': '' @ fmt3 time_total @
     ''s | '' @
     [CHR 0xE8, CHR 0xBF, CHR 0x9E, CHR 0xE7, CHR 0xBB, CHR 0xAD, CHR 0xE5, CHR 0xBC, CHR 0x82,
      CHR 0xE5, CHR 0xB8, CHR 0xB8] @ '': '' @ str_int count @
     [CHR 0xE6, CHR 0xAC, CHR 0xA1] @ '' | '' @
     [CHR 0xE6, CHR 0x97, CHR 0xB6, CHR 0xE9, CHR 0x97, CHR 0xB4] @ '': '' @ now"

definition ok_line :: "OriginTarget \<Rightarrow> string \<Rightarrow> pyfloat \<Rightarrow> string \<Rightarrow> string" where
  "ok_line t code time_total now =
     now @ '' | '' @ name t @ '' | OK | code='' @ code @ '' time='' @ fmt3 time_total @ ''s''"

definition alert_line :: "OriginTarget \<Rightarrow> bool \<Rightarrow> string \<Rightarrow> string \<Rightarrow> string" where
  "alert_line t ok detail now =
     now @ '' | '' @ name t @ '' | ALERT send='' @ str_bool ok @ '' detail='' @ detail"

definition fail_line ::
  "OriginTarget \<Rightarrow> string \<Rightarrow> string \<Rightarrow> pyfloat \<Rightarrow> int \<Rightarrow> string \<Rightarrow> string"
where
  "fail_line t fail_reason code time_total count now =
     now @ '' | '' @ name t @ '' | FAIL_REASON='' @ fail_reason @ '' | code='' @ code @
     '' time='' @ fmt3 time_total @ ''s | COUNT='' @ str_int count"

subsection \<open>One pass of the loop of \<^verbatim>\<open>cmd_origin_run\<close>\<close>

definition count_file :: "string \<Rightarrow> OriginTarget \<Rightarrow> string" where
  "count_file state_dir t = path_join state_dir (safe_name (name t) @ ''.fail'')"

definition last_alert_file :: "string \<Rightarrow> OriginTarget \<Rightarrow> string" where
  "last_alert_file state_dir t = path_join state_dir (safe_name (name t) @ ''.last_alert'')"

text \<open>The failure reason of a probe outcome; the empty string is "no failure".\<close>

definition fail_reason_of :: "string \<Rightarrow> OriginTarget \<Rightarrow> string \<times> pyfloat \<times> string \<Rightarrow> string" where
  "fail_reason_of expect_code t pr =
     (case pr of (code, time_total, curl_err) \<Rightarrow>
        if code \<noteq> expect_code then
          (if code \<noteq> ''000'' then ''HTTP '' @ code
           else (if curl_err \<noteq> [] then curl_err else ''connect_fail''))
        else if float_gt time_total (slow_time t) then slow_reason time_total
        else [])"

text \<open>The throttle: \<^verbatim>\<open>send\<close> as the source computes it.\<close>

definition send_decision :: "int \<Rightarrow> int \<Rightarrow> int \<Rightarrow> int \<Rightarrow> bool" where
  "send_decision count now last_ts alert_interval =
     (if count \<le> 10 then True
      else if count > 10 \<and> now - last_ts \<ge> alert_interval then True
      else False)"

definition origin_cycle ::
  "string \<Rightarrow> string \<Rightarrow> int \<Rightarrow> OriginTarget \<Rightarrow> cycle_env \<Rightarrow> origin_state \<Rightarrow> origin_state"
where
  "origin_cycle state_dir expect_code alert_interval t env st =
     (case probe env of (code, time_total, curl_err) \<Rightarrow>
        let cf = count_file state_dir t;
            lf = last_alert_file state_dir t;
            fail_reason = fail_reason_of expect_code t (code, time_total, curl_err)
        in if fail_reason = [] then
             st\<lparr>files :=
                  (if path_exists (files st) cf \<or> path_exists (files st) lf
                   then remove_file (remove_file (files st) cf) lf
                   else files st),
                log_lines := append_line (log_lines st) (ok_line t code time_total (now_str_log env))\<rparr>
           else
             let count = read_int (files st) cf 0 + 1;
                 files1 = write_int (files st) cf count;
                 last_ts = read_int files1 lf 0;
                 send = send_decision count (now_ts env) last_ts alert_interval;
                 st1 =
                   (if send then
                      (case alert_reply env of (ok, detail) \<Rightarrow>
                         \<lparr>files = (if ok then write_int files1 lf (now_ts env) else files1),
                          log_lines = append_line (log_lines st) (alert_line t ok detail (now_str_alert env)),
                          alerts =
                            alerts st @
                            [alert_message t fail_reason time_total count (now_str_msg env)]\<rparr>)
                    else st\<lparr>files := files1\<rparr>)
             in st1\<lparr>log_lines :=
                      append_line (log_lines st1)
                        (fail_line t fail_reason code time_total count (now_str_log env))\<rparr>)"

text \<open>
  The loop over the targets, each with what its pass meets, and \<^verbatim>\<open>cmd_origin_run\<close> with
  its two refusals; the target list is \<open>None\<close> when the file is not there.
\<close>

fun origin_run_all ::
  "string \<Rightarrow> string \<Rightarrow> int \<Rightarrow> (OriginTarget \<times> cycle_env) list \<Rightarrow> origin_state \<Rightarrow> origin_state"
where
  "origin_run_all state_dir expect_code alert_interval [] st = st"
| "origin_run_all state_dir expect_code alert_interval ((t, env) # rest) st =
     origin_run_all state_dir expect_code alert_interval rest
       (origin_cycle state_dir expect_code alert_interval t env st)"

definition cmd_origin_run ::
  "string \<Rightarrow> string \<Rightarrow> int \<Rightarrow> (OriginTarget \<times> cycle_env) list option \<Rightarrow> origin_state
     \<Rightarrow> int \<times> origin_state"
where
  "cmd_origin_run state_dir expect_code alert_interval targets_file st =
     (case targets_file of
        None \<Rightarrow> (2, st)
      | Some targets \<Rightarrow>
          (if targets = [] then (2, st)
           else (0, origin_run_all state_dir expect_code alert_interval targets st)))"

section \<open>Notions the properties are stated with\<close>

text \<open>
  A status counts as Healthy when it opens with the check mark and as Unavailable when it
  opens with the cross mark; that is how \<^verbatim>\<open>cmd_cn_run\<close> and \<^verbatim>\<open>proxy_check_domain\<close> read
  the statuses back.
\<close>

definition is_healthy :: "string \<Rightarrow> bool" where
  "is_healthy s = startswith s check_mark"

definition is_unavailable :: "string \<Rightarrow> bool" where
  "is_unavailable s = startswith s cross_mark"

text \<open>
  The decision table as the specification words it, to be compared with the verdict that
  \<^const>\<open>cn_check_domain\<close> computes.
\<close>

definition claimed_final :: "bool \<Rightarrow> string \<Rightarrow> string \<Rightarrow> string \<Rightarrow> string" where
  "claimed_final proxy_configured d_https p_https p_http =
     (if proxy_configured then
        (if is_healthy d_https \<and> \<not> is_unavailable p_https then final_reachable
         else if is_healthy d_https \<and> is_unavailable p_https then final_discrepancy
         else if \<not> is_healthy d_https \<and> (is_healthy p_https \<or> is_healthy p_http)
           then final_restricted
         else final_unreachable)
      else (if is_healthy d_https then final_reachable_unverified
            else final_unreachable_unverified))"

text \<open>A response that \<^verbatim>\<open>request_check\<close> turns into a Healthy status.\<close>

definition healthy_response :: "response \<Rightarrow> bool" where
  "healthy_response r =
     (case r of Response code \<Rightarrow> 200 \<le> code \<and> code < 400 | Raised e \<Rightarrow> False)"

text \<open>
  The two probes of one proxy iteration through the proxy \<open>p\<close>, and the requests that the
  iteration making the \<open>j\<close>-th fetch of the run issues: none when the fetch yields nothing.
\<close>

definition proxy_probes :: "cn_cfg \<Rightarrow> string \<Rightarrow> string \<Rightarrow> request list" where
  "proxy_probes cfg d p =
     [\<lparr>url = ''https://'' @ d, timeout = cn_timeout cfg, verify = False, proxies = Some p\<rparr>,
      \<lparr>url = ''http://'' @ d, timeout = cn_timeout cfg, verify = True, proxies = Some p\<rparr>]"

definition iteration_requests :: "net \<Rightarrow> cn_cfg \<Rightarrow> string \<Rightarrow> nat \<Rightarrow> request list" where
  "iteration_requests nt cfg d j =
     (case fetch nt j of None \<Rightarrow> [] | Some p \<Rightarrow> proxy_probes cfg d p)"


text \<open>The status that \<^verbatim>\<open>request_check\<close> makes of an answer when no special case is asked for.\<close>

definition response_status :: "response \<Rightarrow> string" where
  "response_status r =
     (case r of
        Response code \<Rightarrow>
          if 200 \<le> code \<and> code < 400 then status_healthy code else status_anomalous code
      | Raised e \<Rightarrow> status_unavailable (classify_error e))"

section \<open>Example runs\<close>

text \<open>
  A configuration with a proxy source and two retries, an untouched world, and four
  networks: one where every request times out; one where direct requests succeed and
  proxied ones time out; one where every request succeeds and the proxy source never
  yields an endpoint; and one where every request succeeds and the proxy source yields an
  endpoint from its second answer on.
\<close>

definition ex_cfg :: cn_cfg where
  "ex_cfg = \<lparr>has_requests = True, proxy_api = ''http://proxy.example/get'', cn_timeout = 8,
             max_retry = 2\<rparr>"

definition ex_world :: world where
  "ex_world = \<lparr>sent = [], fetched = 0\<rparr>"

definition ex_net_timeouts :: net where
  "ex_net_timeouts = \<lparr>http = (\<lambda>k r. Raised ''Read timed out''), fetch = (\<lambda>k. None)\<rparr>"

definition ex_net_proxy_blocked :: net where
  "ex_net_proxy_blocked =
     \<lparr>http = (\<lambda>k r. case proxies r of None \<Rightarrow> Response 200 | Some p \<Rightarrow> Raised ''reset''),
      fetch = (\<lambda>k. Some ''http://10.0.0.1:8080'')\<rparr>"

definition ex_net_no_endpoint :: net where
  "ex_net_no_endpoint = \<lparr>http = (\<lambda>k r. Response 200), fetch = (\<lambda>k. None)\<rparr>"

definition ex_net_late_endpoint :: net where
  "ex_net_late_endpoint =
     \<lparr>http = (\<lambda>k r. Response 200),
      fetch = (\<lambda>k. if k = 0 then None else Some ''http://10.0.0.1:8080'')\<rparr>"

text \<open>
  For the origin monitor: a state directory, the target \<^verbatim>\<open>edge1\<close> with a slow threshold of
  two seconds, two targets whose names differ only in a blank against an underscore, what
  a pass meets (the probe outcome, the epoch second and whether the alert gets through),
  a state where the streak of \<^verbatim>\<open>edge1\<close> and its last delivered alert are on record, and
  the state of a first run.
\<close>

definition ex_dir :: string where
  "ex_dir = ''/var/lib/onekey-ops/origin''"

definition ex_target :: OriginTarget where
  "ex_target = \<lparr>name = ''edge1'', domain = ''example.com'', origin_ip = ''10.0.0.5'',
                port = 443, path = ''/health'', slow_time = Fin 2, scheme = ''https''\<rparr>"

definition ex_target_blank :: OriginTarget where
  "ex_target_blank = ex_target\<lparr>name := ''a b''\<rparr>"

definition ex_target_underscore :: OriginTarget where
  "ex_target_underscore = ex_target\<lparr>name := ''a_b''\<rparr>"

definition ex_env :: "string \<times> pyfloat \<times> string \<Rightarrow> int \<Rightarrow> bool \<Rightarrow> cycle_env" where
  "ex_env pr now ok =
     \<lparr>probe = pr, now_ts = now,
      alert_reply = (ok, if ok then ''ssh_ok'' else ''ssh_exc=TimeoutExpired''),
      now_str_msg = ''2026-01-01 00:00:00'', now_str_alert = ''2026-01-01 00:00:00'',
      now_str_log = ''2026-01-01 00:00:00''\<rparr>"


definition ex_fresh :: origin_state where
  "ex_fresh = \<lparr>files = Map.empty, log_lines = [], alerts = []\<rparr>"

section \<open>Facts about strings\<close>

lemma startswith_iff_prefix: "startswith s p \<longleftrightarrow> prefix p s"
  by (induction s p rule: startswith.induct) auto

lemma str_in_iff_sublist: "str_in sub s \<longleftrightarrow> sublist sub s"
  by (induction s) (auto simp: sublist_Cons_right startswith_iff_prefix)

section \<open>cn-check: the error classifier\<close>

text \<open>
  Claim C10. The classifier reads the lower-cased error text and answers by the first
  match, in this order: "timed out" or "timeout" gives \<open>timeout\<close>; else "reset" gives
  \<open>reset\<close>; else "ssl" or "eof" gives \<open>ssl_error\<close>; else "refused" gives \<open>refused\<close>;
  else "proxy" together with "connect" gives \<open>proxy_connect\<close>; anything else is \<open>other\<close>.
  So a text that mentions a timeout and a refusal is a \<open>timeout\<close>, and an "eof" text that
  no earlier keyword catches is an \<open>ssl_error\<close>. Containment is stated with the library's
  \<^const>\<open>sublist\<close>.
\<close>

theorem classify_error_precedence:
  "classify_error e =
     (if sublist ''timed out'' (py_lower e) \<or> sublist ''timeout'' (py_lower e) then ''timeout''
      else if sublist ''reset'' (py_lower e) then ''reset''
      else if sublist ''ssl'' (py_lower e) \<or> sublist ''eof'' (py_lower e) then ''ssl_error''
      else if sublist ''refused'' (py_lower e) then ''refused''
      else if sublist ''proxy'' (py_lower e) \<and> sublist ''connect'' (py_lower e)
        then ''proxy_connect''
      else ''other'')
   \<and> (sublist ''timeout'' (py_lower e) \<and> sublist ''refused'' (py_lower e)
        \<longrightarrow> classify_error e = ''timeout'')
   \<and> (sublist ''eof'' (py_lower e) \<and> \<not> sublist ''timed out'' (py_lower e)
        \<and> \<not> sublist ''timeout'' (py_lower e) \<and> \<not> sublist ''reset'' (py_lower e)
        \<longrightarrow> classify_error e = ''ssl_error'')"
  by (simp add: classify_error_def Let_def str_in_iff_sublist)

lemma lower_timeout_refused: "py_lower ''TIMEOUT, refused'' = ''timeout, refused''"
  by (simp add: py_lower_def lower_char_def)

lemma lower_eof: "py_lower ''EOF in TLS'' = ''eof in tls''"
  by (simp add: py_lower_def lower_char_def)

theorem classify_error_precedence_witness:
  "sublist ''timeout'' (py_lower ''TIMEOUT, refused'')
   \<and> sublist ''refused'' (py_lower ''TIMEOUT, refused'')
   \<and> classify_error ''TIMEOUT, refused'' = ''timeout''
   \<and> sublist ''eof'' (py_lower ''EOF in TLS'')
   \<and> \<not> sublist ''timed out'' (py_lower ''EOF in TLS'')
   \<and> \<not> sublist ''timeout'' (py_lower ''EOF in TLS'')
   \<and> \<not> sublist ''reset'' (py_lower ''EOF in TLS'')
   \<and> classify_error ''EOF in TLS'' = ''ssl_error''"
  using classify_error_precedence [of "''TIMEOUT, refused''"]
    classify_error_precedence [of "''EOF in TLS''"]
  unfolding lower_timeout_refused lower_eof str_in_iff_sublist [symmetric]
  by simp

section \<open>cn-check: statuses, probes and the verdict\<close>

lemmas status_defs = status_healthy_def status_anomalous_def status_unstable_def
  status_unavailable_def status_unavailable_bare_def status_no_requests_def
  status_proxy_not_configured_def check_mark_def cross_mark_def warning_sign_def no_entry_def

lemma healthy_status [simp]:
  "startswith (status_healthy c) check_mark"
  "\<not> startswith (status_anomalous c) check_mark"
  "\<not> startswith status_unstable check_mark"
  "\<not> startswith (status_unavailable e) check_mark"
  "\<not> startswith status_unavailable_bare check_mark"
  "\<not> startswith status_no_requests check_mark"
  "\<not> startswith status_proxy_not_configured check_mark"
  by (simp_all add: status_defs)

lemma unavailable_status [simp]:
  "\<not> startswith (status_healthy c) cross_mark"
  "\<not> startswith (status_anomalous c) cross_mark"
  "\<not> startswith status_unstable cross_mark"
  "startswith (status_unavailable e) cross_mark"
  "startswith status_unavailable_bare cross_mark"
  "startswith status_no_requests cross_mark"
  "\<not> startswith status_proxy_not_configured cross_mark"
  by (simp_all add: status_defs)

lemmas final_defs = final_reachable_unverified_def final_unreachable_unverified_def
  final_discrepancy_def final_reachable_def final_restricted_def final_unreachable_def

lemma finals_distinct:
  "distinct [final_reachable_unverified, final_unreachable_unverified, final_discrepancy,
     final_reachable, final_restricted, final_unreachable]"
  by (simp add: final_defs check_mark_def warning_sign_def no_entry_def)

lemma request_check_world:
  "snd (request_check nt hasreq u tmo vfy prx flag w) =
     (if hasreq then w\<lparr>sent := sent w @ [\<lparr>url = u, timeout = tmo, verify = vfy, proxies = prx\<rparr>]\<rparr>
      else w)"
  by (auto simp: request_check_def requests_get_def Let_def split: response.splits)

lemma request_check_status:
  "fst (request_check nt hasreq u tmo vfy prx flag w) =
     (if \<not> hasreq then status_no_requests
      else case http nt (length (sent w)) \<lparr>url = u, timeout = tmo, verify = vfy, proxies = prx\<rparr> of
             Response code \<Rightarrow>
               if 200 \<le> code \<and> code < 400 then status_healthy code else status_anomalous code
           | Raised e \<Rightarrow>
               if flag \<and> classify_error e = ''timeout'' then status_unstable
               else status_unavailable (classify_error e))"
  by (auto simp: request_check_def requests_get_def Let_def split: response.splits)

lemma request_check_healthy_iff:
  "startswith (fst (request_check nt hasreq u tmo vfy prx flag w)) check_mark \<longleftrightarrow>
     hasreq \<and> healthy_response
       (http nt (length (sent w)) \<lparr>url = u, timeout = tmo, verify = vfy, proxies = prx\<rparr>)"
  by (simp add: request_check_status healthy_response_def split: response.splits)

lemma direct_check_domain_status:
  "fst (direct_check_domain nt hasreq d tmo w) =
     (fst (request_check nt hasreq (''https://'' @ d) tmo False None False w),
      fst (request_check nt hasreq (''http://'' @ d) tmo True None True
             (snd (request_check nt hasreq (''https://'' @ d) tmo False None False w))))"
  by (simp add: direct_check_domain_def split_beta)

lemma direct_check_domain_world:
  "snd (direct_check_domain nt hasreq d tmo w) =
     (if hasreq then
        w\<lparr>sent := sent w @
          [\<lparr>url = ''https://'' @ d, timeout = tmo, verify = False, proxies = None\<rparr>,
           \<lparr>url = ''http://'' @ d, timeout = tmo, verify = True, proxies = None\<rparr>]\<rparr>
      else w)"
  by (simp add: direct_check_domain_def split_beta request_check_world)

text \<open>
  Claim C7. With \<^verbatim>\<open>requests\<close> installed: an error on the direct-HTTPS probe always gives
  Unavailable with the classified reason, so a timeout there is \<open>Unavailable(timeout)\<close>; an
  error on the direct-HTTP probe gives Unstable when it classifies as a timeout and
  Unavailable with the classified reason otherwise. The Unstable status is not an
  Unavailable one, and a probe through a proxy, which never asks for the special case,
  gives Unavailable with the classified reason for every error, timeouts included.
\<close>

theorem direct_timeout_unstable:
  assumes "hasreq"
  shows
  "(http nt (length (sent w)) \<lparr>url = ''https://'' @ d, timeout = tmo, verify = False, proxies = None\<rparr>
      = Raised e1
    \<longrightarrow> fst (fst (direct_check_domain nt hasreq d tmo w)) = status_unavailable (classify_error e1))
   \<and> (http nt (Suc (length (sent w)))
        \<lparr>url = ''http://'' @ d, timeout = tmo, verify = True, proxies = None\<rparr> = Raised e2
      \<longrightarrow> snd (fst (direct_check_domain nt hasreq d tmo w)) =
            (if classify_error e2 = ''timeout'' then status_unstable
             else status_unavailable (classify_error e2)))
   \<and> \<not> startswith status_unstable cross_mark
   \<and> status_unstable \<noteq> status_unavailable ''timeout''
   \<and> (http nt (length (sent w)) \<lparr>url = u, timeout = tmo, verify = vfy, proxies = Some p\<rparr> = Raised e3
      \<longrightarrow> fst (request_check nt hasreq u tmo vfy (Some p) False w) =
            status_unavailable (classify_error e3))"
proof -
  have ne: "status_unstable \<noteq> status_unavailable ''timeout''"
    by (simp add: status_defs)
  show ?thesis
    using assms ne
    by (simp add: direct_check_domain_status request_check_status request_check_world)
qed

lemma cn_check_domain_final:
  "final_cn (fst (cn_check_domain nt cfg d w)) =
     claimed_final (proxy_api cfg \<noteq> [])
       (direct_https (fst (cn_check_domain nt cfg d w)))
       (proxy_https (fst (cn_check_domain nt cfg d w)))
       (proxy_http (fst (cn_check_domain nt cfg d w)))"
  by (simp add: cn_check_domain_def split_beta Let_def claimed_final_def is_healthy_def
      is_unavailable_def)

lemma cn_check_domain_not_configured:
  "proxy_api cfg = [] \<Longrightarrow>
     proxy_https (fst (cn_check_domain nt cfg d w)) = status_proxy_not_configured
     \<and> proxy_http (fst (cn_check_domain nt cfg d w)) = status_proxy_not_configured"
  by (simp add: cn_check_domain_def split_beta Let_def proxy_check_domain_def)

lemma cn_check_all_members:
  "r \<in> set (fst (cn_check_all nt cfg ds w)) \<Longrightarrow>
     \<exists>d w0. r = fst (cn_check_domain nt cfg d w0)"
proof (induction ds arbitrary: w)
  case Nil
  then show ?case by simp
next
  case (Cons d ds)
  then show ?case
    by (auto simp: split_beta)
qed

text \<open>
  Claim C1. Every record of a run carries the verdict of the decision table as the claim
  words it: with a proxy source, direct-HTTPS Healthy and proxy-HTTPS not Unavailable is
  "reachable", direct-HTTPS Healthy and proxy-HTTPS Unavailable is the exit-path
  discrepancy, direct-HTTPS not Healthy with a Healthy proxy status is "restricted", and
  otherwise "unreachable"; without a proxy source both proxy statuses are the
  not-configured text and the verdict is one of the two unverified ones.
\<close>

theorem final_classification_table:
  assumes "cmd_cn_run nt cfg domains_file w = (rc, results, w')"
    and "r \<in> set results"
  shows "final_cn r =
           claimed_final (proxy_api cfg \<noteq> []) (direct_https r) (proxy_https r) (proxy_http r)
         \<and> (proxy_api cfg = [] \<longrightarrow>
              proxy_https r = status_proxy_not_configured
              \<and> proxy_http r = status_proxy_not_configured)"
proof -
  from assms have "r \<in> set (fst (cn_check_all nt cfg (the domains_file) w))"
    by (auto simp: cmd_cn_run_def split_beta split: if_splits option.splits)
  then obtain d w0 where "r = fst (cn_check_domain nt cfg d w0)"
    using cn_check_all_members by blast
  then show ?thesis
    using cn_check_domain_final [of nt cfg d w0] cn_check_domain_not_configured [of cfg nt d w0]
    by simp
qed

lemma get_proxy_eq:
  "has_requests cfg \<Longrightarrow> proxy_api cfg \<noteq> [] \<Longrightarrow>
     get_proxy nt cfg w = (fetch nt (fetched w), w\<lparr>fetched := Suc (fetched w)\<rparr>)"
  by (simp add: get_proxy_def)

lemma response_status_healthy [simp]:
  "startswith (response_status r) check_mark \<longleftrightarrow> healthy_response r"
  by (simp add: response_status_def healthy_response_def split: response.splits)

lemma request_check_plain:
  "request_check nt True u tmo vfy prx False w =
     (response_status (http nt (length (sent w)) \<lparr>url = u, timeout = tmo, verify = vfy, proxies = prx\<rparr>),
      w\<lparr>sent := sent w @ [\<lparr>url = u, timeout = tmo, verify = vfy, proxies = prx\<rparr>]\<rparr>)"
  by (auto simp: request_check_def requests_get_def response_status_def split: response.splits)

lemma proxy_loop_Suc:
  assumes "has_requests cfg" and "proxy_api cfg \<noteq> []"
  shows "proxy_loop nt cfg d (Suc k) st w =
     (case fetch nt (fetched w) of
        None \<Rightarrow> proxy_loop nt cfg d k st (w\<lparr>fetched := Suc (fetched w)\<rparr>)
      | Some p \<Rightarrow>
          (let s1 = response_status (http nt (length (sent w)) (proxy_probes cfg d p ! 0));
               s2 = response_status (http nt (Suc (length (sent w))) (proxy_probes cfg d p ! 1));
               w3 = w\<lparr>fetched := Suc (fetched w), sent := sent w @ proxy_probes cfg d p\<rparr>
           in if healthy_response (http nt (length (sent w)) (proxy_probes cfg d p ! 0))
                 \<or> healthy_response (http nt (Suc (length (sent w))) (proxy_probes cfg d p ! 1))
              then ((s1, s2), w3)
              else proxy_loop nt cfg d k (s1, s2) w3))"
  using assms
  by (simp add: get_proxy_eq request_check_plain proxy_probes_def Let_def split: option.splits)

lemma proxy_loop_spec:
  assumes hr: "has_requests cfg" and api: "proxy_api cfg \<noteq> []"
  shows "proxy_loop nt cfg d k st w = ((ph, pp), w') \<Longrightarrow>
     fetched w \<le> fetched w' \<and> fetched w' \<le> fetched w + k
     \<and> sent w' = sent w @ concat (map (iteration_requests nt cfg d) [fetched w..<fetched w'])
     \<and> (\<forall>i. length (sent w) \<le> i \<and> i + 2 < length (sent w')
            \<longrightarrow> \<not> healthy_response (http nt i (sent w' ! i)))
     \<and> (is_healthy ph \<or> is_healthy pp
          \<longrightarrow> (ph, pp) = st \<or> (fetched w < fetched w' \<and> fetch nt (fetched w' - 1) \<noteq> None))
     \<and> (fetched w' < fetched w + k \<longrightarrow> is_healthy ph \<or> is_healthy pp)"
proof (induction k arbitrary: st w)
  case 0
  then show ?case by auto
next
  case (Suc k)
  let ?w1 = "w\<lparr>fetched := Suc (fetched w)\<rparr>"
  show ?case
  proof (cases "fetch nt (fetched w)")
    case None
    with Suc.prems have run: "proxy_loop nt cfg d k st ?w1 = ((ph, pp), w')"
      by (simp add: proxy_loop_Suc [OF hr api] del: proxy_loop.simps)
    note ih = Suc.IH [OF run]
    from ih have lt: "fetched w < fetched w'" by simp
    then have upt: "[fetched w..<fetched w'] = fetched w # [Suc (fetched w)..<fetched w']"
      by (simp add: upt_conv_Cons)
    have it: "iteration_requests nt cfg d (fetched w) = []"
      by (simp add: iteration_requests_def None)
    show ?thesis
      using ih lt by (auto simp: upt it)
  next
    case (Some p)
    let ?r1 = "proxy_probes cfg d p ! 0"
    let ?r2 = "proxy_probes cfg d p ! 1"
    let ?a1 = "http nt (length (sent w)) ?r1"
    let ?a2 = "http nt (Suc (length (sent w))) ?r2"
    let ?w3 = "w\<lparr>fetched := Suc (fetched w), sent := sent w @ proxy_probes cfg d p\<rparr>"
    have it: "iteration_requests nt cfg d (fetched w) = proxy_probes cfg d p"
      by (simp add: iteration_requests_def Some)
    have len: "length (proxy_probes cfg d p) = 2"
      by (simp add: proxy_probes_def)
    show ?thesis
    proof (cases "healthy_response ?a1 \<or> healthy_response ?a2")
      case True
      with Suc.prems Some have res: "ph = response_status ?a1" "pp = response_status ?a2" "w' = ?w3"
        by (auto simp: proxy_loop_Suc [OF hr api] Let_def simp del: proxy_loop.simps)
      show ?thesis
        using True Some by (auto simp: res it len is_healthy_def)
    next
      case False
      with Suc.prems Some have run:
        "proxy_loop nt cfg d k (response_status ?a1, response_status ?a2) ?w3 = ((ph, pp), w')"
        by (auto simp: proxy_loop_Suc [OF hr api] Let_def simp del: proxy_loop.simps)
      note ih = Suc.IH [OF run]
      from ih have lt: "fetched w < fetched w'" by simp
      then have upt: "[fetched w..<fetched w'] = fetched w # [Suc (fetched w)..<fetched w']"
        by (simp add: upt_conv_Cons)
      from ih have snt: "sent w' = sent w @ proxy_probes cfg d p @
          concat (map (iteration_requests nt cfg d) [Suc (fetched w)..<fetched w'])"
        by simp
      have early: "\<not> healthy_response (http nt i (sent w' ! i))"
        if "length (sent w) \<le> i" "i + 2 < length (sent w')" for i
      proof (cases "i < length (sent w) + 2")
        case True
        with that have "i = length (sent w) \<or> i = Suc (length (sent w))" by arith
        then show ?thesis
          using False by (auto simp: snt nth_append len)
      next
        case False
        have l3: "length (sent ?w3) = length (sent w) + 2"
          by (simp add: len)
        from ih have "\<forall>i. length (sent ?w3) \<le> i \<and> i + 2 < length (sent w')
            \<longrightarrow> \<not> healthy_response (http nt i (sent w' ! i))"
          by blast
        then have "length (sent ?w3) \<le> i \<and> i + 2 < length (sent w')
            \<longrightarrow> \<not> healthy_response (http nt i (sent w' ! i))"
          by (rule spec)
        moreover from False have "length (sent ?w3) \<le> i"
          unfolding l3 by arith
        ultimately show ?thesis
          using that(2) by blast
      qed
      have notst: "\<not> (is_healthy (response_status ?a1) \<or> is_healthy (response_status ?a2))"
        using False by (simp add: is_healthy_def)
      show ?thesis
        using ih lt early notst by (auto simp: upt it)
    qed
  qed
qed

lemma proxy_loop_all_none:
  "\<forall>j<k. fetch nt (fetched w + j) = None \<Longrightarrow>
     proxy_loop nt cfg d k st w =
       (st, if has_requests cfg \<and> proxy_api cfg \<noteq> [] then w\<lparr>fetched := fetched w + k\<rparr> else w)"
proof (induction k arbitrary: w)
  case 0
  then show ?case by simp
next
  case (Suc k)
  have f0: "fetch nt (fetched w) = None"
    using Suc.prems [rule_format, of 0] by simp
  have rest: "fetch nt (Suc (fetched w + j)) = None" if "j < k" for j
    using Suc.prems [rule_format, of "Suc j"] that by simp
  show ?case
  proof (cases "has_requests cfg \<and> proxy_api cfg \<noteq> []")
    case True
    let ?w1 = "w\<lparr>fetched := Suc (fetched w)\<rparr>"
    have "\<forall>j<k. fetch nt (fetched ?w1 + j) = None"
      using rest by simp
    from Suc.IH [OF this] True f0 show ?thesis
      by (simp add: get_proxy_def)
  next
    case False
    have "\<forall>j<k. fetch nt (fetched w + j) = None"
      using Suc.prems by simp
    from Suc.IH [OF this] False show ?thesis
      by (auto simp: get_proxy_def)
  qed
qed

lemma classify_read_timed_out: "classify_error ''Read timed out'' = ''timeout''"
  by (simp add: classify_error_def py_lower_def lower_char_def)

lemma classify_reset: "classify_error ''reset'' = ''reset''"
  by (simp add: classify_error_def py_lower_def lower_char_def)

theorem direct_timeout_unstable_witness:
  "fst (direct_check_domain ex_net_timeouts True ''a.cn'' 8 ex_world) =
     (status_unavailable ''timeout'', status_unstable)
   \<and> fst (request_check ex_net_timeouts True ''http://a.cn'' 8 True (Some ''p'') False ex_world) =
     status_unavailable ''timeout''"
  using direct_timeout_unstable [where hasreq = True and nt = ex_net_timeouts and w = ex_world
      and d = "''a.cn''" and tmo = 8 and ?e1.0 = "''Read timed out''"
      and ?e2.0 = "''Read timed out''" and ?e3.0 = "''Read timed out''"
      and u = "''http://a.cn''" and vfy = True and p = "''p''"]
  by (simp add: ex_net_timeouts_def classify_read_timed_out prod_eq_iff)

text \<open>
  Claim C6. With a proxy source configured the proxy-path check makes one fetch per
  iteration and at most \<^verbatim>\<open>max_retry\<close> of them; the requests it issues are, fetch by fetch,
  nothing where the fetch yielded no endpoint and the two probes through the endpoint just
  fetched otherwise; no probe before the last pair was answered healthily, a Healthy
  result means the loop ended with the iteration that probed, and the loop ends before its
  last iteration only with a Healthy result.
\<close>

theorem proxy_retry_loop:
  assumes "has_requests cfg" and "proxy_api cfg \<noteq> []"
    and "proxy_check_domain nt cfg d w = ((ph, pp), w')"
  shows "fetched w \<le> fetched w' \<and> fetched w' - fetched w \<le> nat (max_retry cfg)
     \<and> sent w' = sent w @ concat (map (iteration_requests nt cfg d) [fetched w..<fetched w'])
     \<and> (\<forall>i. length (sent w) \<le> i \<and> i + 2 < length (sent w')
            \<longrightarrow> \<not> healthy_response (http nt i (sent w' ! i)))
     \<and> (is_healthy ph \<or> is_healthy pp
          \<longrightarrow> fetched w < fetched w' \<and> fetch nt (fetched w' - 1) \<noteq> None)
     \<and> (fetched w' - fetched w < nat (max_retry cfg) \<longrightarrow> is_healthy ph \<or> is_healthy pp)"
proof -
  from assms have run: "proxy_loop nt cfg d (nat (max_retry cfg))
      (status_unavailable_bare, status_unavailable_bare) w = ((ph, pp), w')"
    by (simp add: proxy_check_domain_def)
  have bare: "\<not> is_healthy status_unavailable_bare"
    by (simp add: is_healthy_def)
  note sp = proxy_loop_spec [OF assms(1,2) run]
  from sp have "is_healthy ph \<or> is_healthy pp
      \<longrightarrow> fetched w < fetched w' \<and> fetch nt (fetched w' - 1) \<noteq> None"
    using bare by auto
  moreover from sp have "fetched w' - fetched w \<le> nat (max_retry cfg)"
    by arith
  moreover from sp have "fetched w' - fetched w < nat (max_retry cfg)
      \<longrightarrow> is_healthy ph \<or> is_healthy pp"
    by auto
  ultimately show ?thesis
    using sp by blast
qed

lemma ex_late_run:
  "proxy_check_domain ex_net_late_endpoint ex_cfg ''a.cn'' ex_world =
     ((status_healthy 200, status_healthy 200),
      \<lparr>sent = proxy_probes ex_cfg ''a.cn'' ''http://10.0.0.1:8080'', fetched = 2\<rparr>)"
  by (simp add: proxy_check_domain_def ex_cfg_def ex_world_def ex_net_late_endpoint_def
      numeral_2_eq_2 get_proxy_def request_check_def requests_get_def proxy_probes_def)

theorem proxy_retry_loop_witness:
  "has_requests ex_cfg \<and> proxy_api ex_cfg \<noteq> []
   \<and> fetched \<lparr>sent = proxy_probes ex_cfg ''a.cn'' ''http://10.0.0.1:8080'', fetched = 2\<rparr>
       - fetched ex_world \<le> nat (max_retry ex_cfg)
   \<and> fetch ex_net_late_endpoint 0 = None
   \<and> fetch ex_net_late_endpoint 1 \<noteq> None
   \<and> is_healthy (status_healthy 200)"
proof -
  have h1: "has_requests ex_cfg" and h2: "proxy_api ex_cfg \<noteq> []"
    by (simp_all add: ex_cfg_def)
  from proxy_retry_loop [OF h1 h2 ex_late_run] h1 h2 show ?thesis
    by (simp add: ex_net_late_endpoint_def is_healthy_def)
qed

text \<open>
  Claim C9. With a proxy source configured, if none of the \<^verbatim>\<open>max_retry\<close> fetches yields
  an endpoint, both proxy statuses keep the bare Unavailable text, the only requests of
  the check are the two direct ones (none goes through a proxy), and a Healthy
  direct-HTTPS status gives the exit-path-discrepancy verdict.
\<close>

theorem proxy_source_silent:
  assumes "proxy_api cfg \<noteq> []"
    and "\<forall>j < nat (max_retry cfg). fetch nt (fetched w + j) = None"
  shows "proxy_https (fst (cn_check_domain nt cfg d w)) = status_unavailable_bare
     \<and> proxy_http (fst (cn_check_domain nt cfg d w)) = status_unavailable_bare
     \<and> sent (snd (cn_check_domain nt cfg d w)) =
         sent (snd (direct_check_domain nt (has_requests cfg) d (cn_timeout cfg) w))
     \<and> (\<forall>r \<in> set (sent (snd (cn_check_domain nt cfg d w))).
           r \<in> set (sent w) \<or> proxies r = None)
     \<and> is_unavailable status_unavailable_bare
     \<and> (is_healthy (direct_https (fst (cn_check_domain nt cfg d w)))
          \<longrightarrow> final_cn (fst (cn_check_domain nt cfg d w)) = final_discrepancy)"
proof -
  let ?w1 = "snd (direct_check_domain nt (has_requests cfg) d (cn_timeout cfg) w)"
  have f1: "fetched ?w1 = fetched w"
    by (simp add: direct_check_domain_world)
  with assms(2) have "\<forall>j < nat (max_retry cfg). fetch nt (fetched ?w1 + j) = None"
    by simp
  from proxy_loop_all_none [OF this]
  have pl: "proxy_check_domain nt cfg d ?w1 =
      ((status_unavailable_bare, status_unavailable_bare),
       if has_requests cfg \<and> proxy_api cfg \<noteq> []
       then ?w1\<lparr>fetched := fetched ?w1 + nat (max_retry cfg)\<rparr> else ?w1)"
    using assms(1) by (simp add: proxy_check_domain_def)
  have r: "fst (cn_check_domain nt cfg d w) =
      \<lparr>cn_result.domain = d,
       direct_https = fst (fst (direct_check_domain nt (has_requests cfg) d (cn_timeout cfg) w)),
       direct_http = snd (fst (direct_check_domain nt (has_requests cfg) d (cn_timeout cfg) w)),
       proxy_https = status_unavailable_bare, proxy_http = status_unavailable_bare,
       final_cn =
         (if startswith (fst (fst (direct_check_domain nt (has_requests cfg) d (cn_timeout cfg) w)))
               check_mark
          then final_discrepancy else final_unreachable)\<rparr>"
    using assms(1) by (simp add: cn_check_domain_def split_beta Let_def pl)
  have s: "sent (snd (cn_check_domain nt cfg d w)) = sent ?w1"
    by (simp add: cn_check_domain_def split_beta Let_def pl)
  have m: "\<forall>r \<in> set (sent ?w1). r \<in> set (sent w) \<or> proxies r = None"
    by (auto simp: direct_check_domain_world)
  show ?thesis
    using m by (simp add: r s is_healthy_def is_unavailable_def)
qed

lemma ex_silent_run:
  "fst (cn_check_domain ex_net_no_endpoint ex_cfg ''a.cn'' ex_world) =
     \<lparr>cn_result.domain = ''a.cn'', direct_https = status_healthy 200, direct_http = status_healthy 200,
      proxy_https = status_unavailable_bare, proxy_http = status_unavailable_bare,
      final_cn = final_discrepancy\<rparr>"
  by (simp add: cn_check_domain_def direct_check_domain_def proxy_check_domain_def
      ex_cfg_def ex_world_def ex_net_no_endpoint_def numeral_2_eq_2 get_proxy_def
      request_check_def requests_get_def)

theorem proxy_source_silent_witness:
  "proxy_api ex_cfg \<noteq> []
   \<and> fetch ex_net_no_endpoint (fetched ex_world) = None
   \<and> fetch ex_net_no_endpoint (fetched ex_world + 1) = None
   \<and> is_healthy (direct_https (fst (cn_check_domain ex_net_no_endpoint ex_cfg ''a.cn'' ex_world)))
   \<and> final_cn (fst (cn_check_domain ex_net_no_endpoint ex_cfg ''a.cn'' ex_world)) =
       final_discrepancy"
proof -
  have h1: "proxy_api ex_cfg \<noteq> []"
    by (simp add: ex_cfg_def)
  have h2: "\<forall>j < nat (max_retry ex_cfg). fetch ex_net_no_endpoint (fetched ex_world + j) = None"
    by (simp add: ex_net_no_endpoint_def)
  have h3: "is_healthy (direct_https (fst (cn_check_domain ex_net_no_endpoint ex_cfg ''a.cn'' ex_world)))"
    by (simp add: ex_silent_run is_healthy_def)
  have h4: "fetch ex_net_no_endpoint (fetched ex_world) = None"
    "fetch ex_net_no_endpoint (fetched ex_world + 1) = None"
    by (simp_all add: ex_net_no_endpoint_def)
  from proxy_source_silent [OF h1 h2, of "''a.cn''"] h1 h3 h4 show ?thesis
    by blast
qed

lemma ex_blocked_run:
  "cmd_cn_run ex_net_proxy_blocked ex_cfg (Some [''a.cn'']) ex_world =
     (0,
      [\<lparr>cn_result.domain = ''a.cn'', direct_https = status_healthy 200, direct_http = status_healthy 200,
        proxy_https = status_unavailable ''reset'', proxy_http = status_unavailable ''reset'',
        final_cn = final_discrepancy\<rparr>],
      \<lparr>sent =
         [\<lparr>url = ''https://a.cn'', timeout = 8, verify = False, proxies = None\<rparr>,
          \<lparr>url = ''http://a.cn'', timeout = 8, verify = True, proxies = None\<rparr>]
         @ proxy_probes ex_cfg ''a.cn'' ''http://10.0.0.1:8080''
         @ proxy_probes ex_cfg ''a.cn'' ''http://10.0.0.1:8080'',
       fetched = 2\<rparr>)"
  by (simp add: cmd_cn_run_def cn_check_domain_def direct_check_domain_def proxy_check_domain_def
      ex_cfg_def ex_world_def ex_net_proxy_blocked_def numeral_2_eq_2 get_proxy_def
      request_check_def requests_get_def proxy_probes_def classify_reset)

theorem final_classification_table_witness:
  "final_cn \<lparr>cn_result.domain = ''a.cn'', direct_https = status_healthy 200,
       direct_http = status_healthy 200, proxy_https = status_unavailable ''reset'',
       proxy_http = status_unavailable ''reset'', final_cn = final_discrepancy\<rparr> =
     claimed_final (proxy_api ex_cfg \<noteq> []) (status_healthy 200) (status_unavailable ''reset'')
       (status_unavailable ''reset'')
   \<and> claimed_final True (status_healthy 200) (status_unavailable ''reset'')
       (status_unavailable ''reset'') = final_discrepancy"
  using final_classification_table [OF ex_blocked_run, of
      "\<lparr>cn_result.domain = ''a.cn'', direct_https = status_healthy 200,
        direct_http = status_healthy 200, proxy_https = status_unavailable ''reset'',
        proxy_http = status_unavailable ''reset'', final_cn = final_discrepancy\<rparr>"]
  by (simp add: ex_cfg_def claimed_final_def is_healthy_def is_unavailable_def)

section \<open>origin-monitor: state files, the pass and the alert policy\<close>

lemma isalnum_slash: "\<not> isalnum CHR ''/''"
  by (simp add: isalnum_def)

lemma safe_name_chars:
  "c \<in> set (safe_name nm) \<Longrightarrow> isalnum c \<or> c = CHR ''.'' \<or> c = CHR ''-'' \<or> c = CHR ''_''"
  by (auto simp: safe_name_def split: if_splits)

lemma safe_name_no_slash: "CHR ''/'' \<notin> set (safe_name nm)"
  using safe_name_chars [of "CHR ''/''" nm] isalnum_slash by auto

lemma key_file_relative: "\<not> startswith (safe_name nm @ CHR ''.'' # sfx) ''/''"
proof (cases "safe_name nm")
  case Nil
  then show ?thesis by simp
next
  case (Cons c cs)
  then have "c \<in> set (safe_name nm)" by simp
  with safe_name_no_slash [of nm] have "c \<noteq> CHR ''/''" by auto
  with Cons show ?thesis by simp
qed

lemma path_join_relative:
  "\<not> startswith b ''/'' \<Longrightarrow>
     path_join a b = (if a = [] \<or> last a = CHR ''/'' then a else a @ ''/'') @ b"
  by (simp add: path_join_def)

lemma state_file_eq:
  "path_join dir (safe_name n1 @ CHR ''.'' # s1) = path_join dir (safe_name n2 @ CHR ''.'' # s2)
     \<longleftrightarrow> safe_name n1 @ CHR ''.'' # s1 = safe_name n2 @ CHR ''.'' # s2"
  by (simp add: path_join_relative [OF key_file_relative])

lemma count_file_eq [simp]:
  "count_file dir t1 = count_file dir t2 \<longleftrightarrow> safe_name (name t1) = safe_name (name t2)"
  using state_file_eq [of dir "name t1" "''fail''" "name t2" "''fail''"]
  by (simp add: count_file_def)

lemma last_alert_file_eq [simp]:
  "last_alert_file dir t1 = last_alert_file dir t2 \<longleftrightarrow> safe_name (name t1) = safe_name (name t2)"
  using state_file_eq [of dir "name t1" "''last_alert''" "name t2" "''last_alert''"]
  by (simp add: last_alert_file_def)

lemma suffix_differs: "xs @ ''.fail'' \<noteq> ys @ ''.last_alert''"
proof
  assume "xs @ ''.fail'' = ys @ ''.last_alert''"
  then have "last (xs @ ''.fail'') = last (ys @ ''.last_alert'')" by simp
  then show False by simp
qed

lemma count_file_neq_last [simp]:
  "count_file dir t1 \<noteq> last_alert_file dir t2"
  "last_alert_file dir t2 \<noteq> count_file dir t1"
  using state_file_eq [of dir "name t1" "''fail''" "name t2" "''last_alert''"] suffix_differs
  by (auto simp: count_file_def last_alert_file_def)

lemma origin_cycle_ok:
  assumes "fail_reason_of expect_code t (probe env) = []"
  shows "files (origin_cycle dir expect_code ai t env st) =
           (files st)(count_file dir t := None, last_alert_file dir t := None)"
    and "alerts (origin_cycle dir expect_code ai t env st) = alerts st"
    and "log_lines (origin_cycle dir expect_code ai t env st) =
           append_line (log_lines st)
             (ok_line t (fst (probe env)) (fst (snd (probe env))) (now_str_log env))"
  using assms
  by (auto simp: origin_cycle_def Let_def split_beta path_exists_def remove_file_def
      fun_eq_iff prod_eq_iff)

lemma origin_cycle_fail:
  fixes dir t st env ai
  defines "n \<equiv> read_int (files st) (count_file dir t) 0 + 1"
  defines "send \<equiv> send_decision n (now_ts env) (read_int (files st) (last_alert_file dir t) 0) ai"
  assumes "fail_reason_of expect_code t (probe env) \<noteq> []"
  shows "files (origin_cycle dir expect_code ai t env st) =
           (if send \<and> fst (alert_reply env)
            then (files st)(count_file dir t \<mapsto> Number n,
                            last_alert_file dir t \<mapsto> Number (now_ts env))
            else (files st)(count_file dir t \<mapsto> Number n))"
    and "alerts (origin_cycle dir expect_code ai t env st) =
           (if send
            then alerts st @
              [alert_message t (fail_reason_of expect_code t (probe env)) (fst (snd (probe env))) n
                 (now_str_msg env)]
            else alerts st)"
    and "log_lines (origin_cycle dir expect_code ai t env st) =
           append_line
             (if send
              then append_line (log_lines st)
                     (alert_line t (fst (alert_reply env)) (snd (alert_reply env))
                        (now_str_alert env))
              else log_lines st)
             (fail_line t (fail_reason_of expect_code t (probe env)) (fst (probe env))
                (fst (snd (probe env))) n (now_str_log env))"
  using assms(3) unfolding n_def send_def
  by (auto simp: origin_cycle_def Let_def split_beta write_int_def read_int_def prod_eq_iff)






lemma safe_name_id: "\<forall>c \<in> set nm. isalnum c \<or> c \<in> set ''.-_'' \<Longrightarrow> safe_name nm = nm"
  unfolding safe_name_def by (induction nm) auto

lemma safe_char_eq_iff:
  "(if isalnum c \<or> c \<in> set ''.-_'' then c else CHR ''_'') =
     (if isalnum d \<or> d \<in> set ''.-_'' then d else CHR ''_'')
   \<longleftrightarrow> c = d \<or> (\<not> isalnum c \<and> c \<notin> set ''.-'' \<and> \<not> isalnum d \<and> d \<notin> set ''.-'')"
proof -
  have us: "\<not> isalnum CHR ''_''" by (simp add: isalnum_def)
  show ?thesis using us by auto
qed

lemma safe_name_eq_iff:
  "safe_name a = safe_name b \<longleftrightarrow>
     length a = length b
     \<and> (\<forall>i < length a. a ! i = b ! i
           \<or> (\<not> isalnum (a ! i) \<and> a ! i \<notin> set ''.-'' \<and> \<not> isalnum (b ! i) \<and> b ! i \<notin> set ''.-''))"
proof -
  have "safe_name a = safe_name b \<longleftrightarrow>
      length a = length b
      \<and> (\<forall>i < length a.
            (if isalnum (a ! i) \<or> a ! i \<in> set ''.-_'' then a ! i else CHR ''_'') =
            (if isalnum (b ! i) \<or> b ! i \<in> set ''.-_'' then b ! i else CHR ''_''))"
    unfolding safe_name_def list_eq_iff_nth_eq by (simp cong: conj_cong)
  then show ?thesis
    unfolding safe_char_eq_iff .
qed

lemma other_key_untouched:
  assumes "safe_name (name t1) \<noteq> safe_name (name t2)"
  shows "files (origin_cycle dir expect_code ai t1 env st) (count_file dir t2) =
           files st (count_file dir t2)"
    and "files (origin_cycle dir expect_code ai t1 env st) (last_alert_file dir t2) =
           files st (last_alert_file dir t2)"
proof -
  have c: "count_file dir t2 \<noteq> count_file dir t1" "last_alert_file dir t2 \<noteq> last_alert_file dir t1"
    using assms by auto
  show "files (origin_cycle dir expect_code ai t1 env st) (count_file dir t2) =
           files st (count_file dir t2)"
    using c by (cases "fail_reason_of expect_code t1 (probe env) = []")
      (simp_all add: origin_cycle_ok origin_cycle_fail)
  show "files (origin_cycle dir expect_code ai t1 env st) (last_alert_file dir t2) =
           files st (last_alert_file dir t2)"
    using c by (cases "fail_reason_of expect_code t1 (probe env) = []")
      (simp_all add: origin_cycle_ok origin_cycle_fail)
qed






text \<open>
  Claim C8, as amended. Two names have the same storage key exactly when they have the
  same length and at every position either agree or both hold a character that is
  replaced by (or is) the underscore. Hence distinct names made only of letters, digits,
  dot, hyphen and underscore have distinct keys. Whenever two targets have distinct keys,
  their four state files are pairwise distinct and a pass for one leaves both files of the
  other as they were.
\<close>

theorem storage_keys_distinct:
  "(safe_name a = safe_name b \<longleftrightarrow>
      length a = length b
      \<and> (\<forall>i < length a. a ! i = b ! i
            \<or> (\<not> isalnum (a ! i) \<and> a ! i \<notin> set ''.-'' \<and> \<not> isalnum (b ! i) \<and> b ! i \<notin> set ''.-'')))
   \<and> ((\<forall>c \<in> set a \<union> set b. isalnum c \<or> c \<in> set ''.-_'') \<and> a \<noteq> b
        \<longrightarrow> safe_name a \<noteq> safe_name b)
   \<and> (safe_name (name t1) \<noteq> safe_name (name t2) \<longrightarrow>
        distinct [count_file dir t1, last_alert_file dir t1, count_file dir t2,
                  last_alert_file dir t2]
        \<and> files (origin_cycle dir expect_code ai t1 env st) (count_file dir t2) =
            files st (count_file dir t2)
        \<and> files (origin_cycle dir expect_code ai t1 env st) (last_alert_file dir t2) =
            files st (last_alert_file dir t2))"
proof -
  have "safe_name a \<noteq> safe_name b"
    if "\<forall>c \<in> set a \<union> set b. isalnum c \<or> c \<in> set ''.-_''" "a \<noteq> b"
  proof -
    from that(1) have "safe_name a = a" "safe_name b = b"
      by (auto intro!: safe_name_id)
    with that(2) show ?thesis by simp
  qed
  then show ?thesis
    using safe_name_eq_iff [of a b] other_key_untouched [of t1 t2 dir expect_code ai env st]
    by auto
qed

lemma safe_blank: "safe_name ''a b'' = ''a_b''"
  by (simp add: safe_name_def isalnum_def)

lemma safe_underscore: "safe_name ''a_b'' = ''a_b''"
  by (simp add: safe_name_def isalnum_def)

lemma fail_500: "fail_reason_of ''200'' t (''500'', tt, err) = ''HTTP 500''"
  by (simp add: fail_reason_of_def)

text \<open>
  The claim as worded fails: the names \<open>a b\<close> and \<open>a_b\<close> differ, get the same key and
  the same files, and one failing pass for the first makes the count of the second read 1.
\<close>

theorem storage_keys_collide:
  "name ex_target_blank \<noteq> name ex_target_underscore
   \<and> safe_name (name ex_target_blank) = safe_name (name ex_target_underscore)
   \<and> count_file ex_dir ex_target_blank = count_file ex_dir ex_target_underscore
   \<and> last_alert_file ex_dir ex_target_blank = last_alert_file ex_dir ex_target_underscore
   \<and> read_int (files ex_fresh) (count_file ex_dir ex_target_underscore) 0 = 0
   \<and> read_int
        (files (origin_cycle ex_dir ''200'' 3600 ex_target_blank
                  (ex_env (''500'', Fin (1 / 20), '''') 1000 True) ex_fresh))
        (count_file ex_dir ex_target_underscore) 0 = 1"
proof -
  have k: "safe_name (name ex_target_blank) = safe_name (name ex_target_underscore)"
    by (simp add: ex_target_blank_def ex_target_underscore_def safe_blank safe_underscore)
  have f: "fail_reason_of ''200'' ex_target_blank
      (probe (ex_env (''500'', Fin (1 / 20), '''') 1000 True)) \<noteq> []"
    by (simp add: ex_env_def fail_500)
  have c: "count_file ex_dir ex_target_underscore = count_file ex_dir ex_target_blank"
    using k by simp
  show ?thesis
    using k by (simp add: origin_cycle_fail [OF f] c read_int_def ex_fresh_def)
      (simp add: ex_target_blank_def ex_target_underscore_def)
qed

theorem storage_keys_distinct_witness:
  "''edge1'' \<noteq> ''edge2''
   \<and> safe_name ''edge1'' \<noteq> safe_name ''edge2''
   \<and> safe_name (name ex_target) \<noteq> safe_name (name ex_target_blank)
   \<and> files (origin_cycle ex_dir ''200'' 3600 ex_target
               (ex_env (''500'', Fin (1 / 20), '''') 1000 True) ex_fresh)
        (count_file ex_dir ex_target_blank) = None"
proof -
  have h1: "\<forall>c \<in> set ''edge1'' \<union> set ''edge2''. isalnum c \<or> c \<in> set ''.-_''"
    by (simp add: isalnum_def)
  have h2: "safe_name (name ex_target) \<noteq> safe_name (name ex_target_blank)"
    by (simp add: ex_target_def ex_target_blank_def safe_name_def)
  have h3: "''edge1'' \<noteq> ''edge2''"
    by simp
  have h4: "files ex_fresh (count_file ex_dir ex_target_blank) = None"
    by (simp add: ex_fresh_def)
  from storage_keys_distinct [of "''edge1''" "''edge2''" ex_target ex_target_blank ex_dir "''200''"
      3600 "ex_env (''500'', Fin (1 / 20), '''') 1000 True" ex_fresh, THEN conjunct2] h1 h2 h3 h4
  show ?thesis
    by simp
qed












end
